theory Spec2Isabelle
  imports Complex_Main "HOL-Library.AList"
begin

section \<open>Python values, strings and keyword dictionaries\<close>

text \<open>
  The option values a caller passes to \<^verbatim>\<open>lmql.model(identifier, **kwargs)\<close>: \<^verbatim>\<open>None\<close>,
  booleans, integers and strings (floats are left out).
\<close>

datatype pyval = PNone | PBool bool | PInt int | PStr string

text \<open>
  A keyword dictionary is an association list in insertion order. Python keeps a key's
  position when its entry is overwritten and appends a new key at the end, which is what
  \<open>AList.update\<close> does; \<open>AList.delete\<close> removes a key.
\<close>

type_synonym kwargs = "(string \<times> pyval) list"

definition dict_contains :: "string \<Rightarrow> kwargs \<Rightarrow> bool" where
  "dict_contains k kw = (map_of kw k \<noteq> None)"

definition dict_get :: "kwargs \<Rightarrow> string \<Rightarrow> pyval \<Rightarrow> pyval" where
  "dict_get kw k dflt = (case map_of kw k of None \<Rightarrow> dflt | Some v \<Rightarrow> v)"

text \<open>\<^verbatim>\<open>kwargs.pop(k, default)\<close>: the entry's content (or the default) and the dictionary without it.\<close>

definition dict_pop :: "kwargs \<Rightarrow> string \<Rightarrow> pyval \<Rightarrow> pyval \<times> kwargs" where
  "dict_pop kw k dflt = (dict_get kw k dflt, AList.delete k kw)"

text \<open>Python's truth test, as \<^verbatim>\<open>if kwargs.get("inprocess", False)\<close> applies it.\<close>

fun truthy :: "pyval \<Rightarrow> bool" where
  "truthy PNone = False"
| "truthy (PBool b) = b"
| "truthy (PInt i) = (i \<noteq> 0)"
| "truthy (PStr s) = (s \<noteq> [])"

text \<open>Decimal digits of a natural number, most significant first.\<close>

function str_nat :: "nat \<Rightarrow> string" where
  "str_nat n =
     (if n < 10 then [''0123456789'' ! n]
      else str_nat (n div 10) @ [''0123456789'' ! (n mod 10)])"
  by pat_completeness auto
termination
  by (relation "measure id") auto

declare str_nat.simps [simp del]

text \<open>\<^verbatim>\<open>str(v)\<close>, which the f-string \<^verbatim>\<open>f"{k}={v}"\<close> applies to an option's content.\<close>

fun py_str :: "pyval \<Rightarrow> string" where
  "py_str PNone = ''None''"
| "py_str (PBool b) = (if b then ''True'' else ''False'')"
| "py_str (PInt i) = (if i < 0 then CHR ''-'' # str_nat (nat (- i)) else str_nat (nat i))"
| "py_str (PStr s) = s"

text \<open>\<^verbatim>\<open>sep.join(parts)\<close>.\<close>

fun py_join :: "string \<Rightarrow> string list \<Rightarrow> string" where
  "py_join sep [] = []"
| "py_join sep [x] = x"
| "py_join sep (x # y # ys) = x @ sep @ py_join sep (y # ys)"

text \<open>\<^verbatim>\<open>s.startswith(p)\<close>.\<close>

definition startswith :: "string \<Rightarrow> string \<Rightarrow> bool" where
  "startswith s p = (take (length p) s = p)"

text \<open>
  \<^verbatim>\<open>s.replace(old, new)\<close>: every occurrence of \<open>old\<close>, left to right and without
  overlap. With an empty \<open>old\<close> Python puts \<open>new\<close> before every character and at the end.
\<close>

function py_replace :: "string \<Rightarrow> string \<Rightarrow> string \<Rightarrow> string" where
  "py_replace old new s =
     (if old = [] then new @ concat (map (\<lambda>c. c # new) s)
      else if s = [] then []
      else if take (length old) s = old then new @ py_replace old new (drop (length old) s)
      else hd s # py_replace old new (tl s))"
  by pat_completeness auto
termination
  by (relation "measure (\<lambda>(old, new, s). length s)") auto

declare py_replace.simps [simp del]

text \<open>
  \<^verbatim>\<open>os.path.dirname\<close> and \<^verbatim>\<open>os.path.join\<close> of two parts, as \<^verbatim>\<open>posixpath\<close> computes them:
  the directory is everything up to the last slash, with trailing slashes dropped unless
  it consists of slashes only.
\<close>

fun rstrip_slash :: "string \<Rightarrow> string" where
  "rstrip_slash s = rev (dropWhile (\<lambda>c. c = CHR ''/'') (rev s))"

definition dirname :: "string \<Rightarrow> string" where
  "dirname p =
     (let hd_part = rev (dropWhile (\<lambda>c. c \<noteq> CHR ''/'') (rev p))
      in if hd_part \<noteq> [] \<and> \<not> list_all (\<lambda>c. c = CHR ''/'') hd_part
         then rstrip_slash hd_part else hd_part)"

definition path_join :: "string \<Rightarrow> string \<Rightarrow> string" where
  "path_join a b =
     (if startswith b ''/'' then b
      else if a = [] \<or> last a = CHR ''/'' then a @ b
      else a @ ''/'' @ b)"

section \<open>The model handle and its resolver (lmql/api/llm.py)\<close>

text \<open>
  An adapter is represented by the constructor call that made it: \<^verbatim>\<open>openai_model\<close>,
  \<^verbatim>\<open>inprocess\<close> (always called with \<^verbatim>\<open>use_existing_configuration=True\<close>) and \<^verbatim>\<open>lmtp_model\<close>
  are imported from modules outside these sources, so only their arguments are recorded.
  \<open>CustomAdapter\<close> stands for any other implementation of \<^verbatim>\<open>ModelAPIAdapter\<close> a caller
  may have put into a handle.
\<close>

datatype adapter =
    OpenAIModel string pyval kwargs
  | InProcess string kwargs
  | LMTPModel string pyval kwargs
  | CustomAdapter string

record LLM =
  model_identifier :: string
  adapter :: "adapter option"
  configuration_string :: "string option"

text \<open>What a caller may pass as \<^verbatim>\<open>model_identifier\<close>: \<^verbatim>\<open>None\<close>, a string, a handle, or anything else.\<close>

datatype descriptor = DNone | DStr string | DLLM LLM | DOther

datatype error =
    AssertionError string
  | AttributeError
  | TypeError
  | ValueError string
  | IndexError
  | RuntimeError

datatype warning = TokenizerModelNotPresent string

text \<open>
  The resolver's surroundings: the alias table (\<^verbatim>\<open>lmql.models.aliases\<close>, not part of these
  sources, hence a parameter), the process-wide default model and the file system as
  \<^verbatim>\<open>os.path.exists\<close> sees it.
\<close>

record env =
  model_name_aliases :: "string \<rightharpoonup> string"
  default_model :: descriptor
  path_exists :: "string \<Rightarrow> bool"

definition get_default_model :: "env \<Rightarrow> descriptor" where
  "get_default_model e = default_model e"

text \<open>Line 171: the options rendered as \<^verbatim>\<open>key=value\<close>, joined by a comma and a space.\<close>

definition configuration_representation :: "kwargs \<Rightarrow> string" where
  "configuration_representation kw = py_join '', '' (map (\<lambda>(k, v). k @ ''='' @ py_str v) kw)"

text \<open>Lines 191-194: the special case of the \<^verbatim>\<open>random\<close> model.\<close>

definition random_case :: "kwargs \<Rightarrow> kwargs" where
  "random_case kw =
     (let kw1 = AList.update ''tokenizer''
                  (if \<not> dict_contains ''vocab'' kw then PStr ''gpt2''
                   else dict_get kw ''vocab'' PNone) kw;
          kw2 = AList.update ''inprocess'' (PBool True) kw1
      in AList.update ''async_transport'' (PBool True) kw2)"

text \<open>Lines 197-206: the special case of \<^verbatim>\<open>llama.cpp:\<close> identifiers.\<close>

definition llama_cpp_case :: "env \<Rightarrow> string \<Rightarrow> kwargs \<Rightarrow> warning list \<times> kwargs" where
  "llama_cpp_case e mid kw =
     (if dict_contains ''tokenizer'' kw
      then ([], AList.update ''tokenizer'' (dict_get kw ''tokenizer'' PNone) kw)
      else
        (let tokenizer_path =
               path_join (dirname (py_replace ''llama.cpp:'' [] mid)) ''tokenizer.model''
         in if path_exists e tokenizer_path
            then ([], AList.update ''tokenizer'' (PStr tokenizer_path) kw)
            else ([TokenizerModelNotPresent ''huggyllama/llama-7b''],
                  AList.update ''tokenizer''
                    (dict_get kw ''tokenizer'' (PStr ''huggyllama/llama-7b'')) kw)))"

text \<open>
  Lines 187-220: the local and managed family. A caller's own
  \<^verbatim>\<open>use_existing_configuration\<close> option collides with the keyword \<^verbatim>\<open>inprocess\<close> is always
  called with, which Python refuses with a \<^verbatim>\<open>TypeError\<close>.
\<close>

definition lmtp_family :: "env \<Rightarrow> string \<Rightarrow> pyval \<Rightarrow> kwargs \<Rightarrow> warning list \<times> (error + adapter)" where
  "lmtp_family e mid endpoint kw =
     (let kw1 = (if mid = ''random'' then random_case kw else kw);
          (ws, kw2) = (if startswith mid ''llama.cpp:'' then llama_cpp_case e mid kw1
                       else ([], kw1));
          endpoint1 = (if endpoint = PNone then PStr ''localhost:8080'' else endpoint);
          (mid1, kw3) = (if startswith mid ''local:''
                         then (drop 6 mid, AList.update ''inprocess'' (PBool True) kw2)
                         else (mid, kw2))
      in if truthy (dict_get kw3 ''inprocess'' (PBool False))
         then (if dict_contains ''use_existing_configuration'' kw3 then (ws, Inl TypeError)
               else (ws, Inr (InProcess mid1 kw3)))
         else (ws, Inr (LMTPModel mid1 endpoint1 kw3)))"

text \<open>
  Lines 165-222, for an identifier that is a string. When the alias-resolved identifier
  is \<^verbatim>\<open><dynamic>\<close> the default model replaces it, and a default that is not a string has
  no \<^verbatim>\<open>startswith\<close>.
\<close>

definition from_string :: "env \<Rightarrow> string \<Rightarrow> kwargs \<Rightarrow> warning list \<times> (error + LLM)" where
  "from_string e s kw =
     (let aliased = (case model_name_aliases e s of Some a \<Rightarrow> a | None \<Rightarrow> s);
          original_name = aliased;
          conf = configuration_representation kw;
          resolved = (if aliased = ''<dynamic>'' then default_model e else DStr aliased);
          (endpoint, kw1) = dict_pop kw ''endpoint'' PNone
      in case resolved of
           DStr mid \<Rightarrow>
             if startswith mid ''openai/''
             then ([], Inr \<lparr>model_identifier = original_name,
                             adapter = Some (OpenAIModel (drop 7 mid) endpoint kw1),
                             configuration_string = Some conf\<rparr>)
             else (let (ws, r) = lmtp_family e mid endpoint kw1
                   in (ws, case r of
                             Inl err \<Rightarrow> Inl err
                           | Inr a \<Rightarrow> Inr \<lparr>model_identifier = original_name,
                                              adapter = Some a,
                                              configuration_string = Some conf\<rparr>))
         | _ \<Rightarrow> ([], Inl AttributeError))"

text \<open>Lines 156-157: \<^verbatim>\<open><dynamic>\<close> and \<^verbatim>\<open>None\<close> stand for the default model.\<close>

definition initial_descriptor :: "env \<Rightarrow> descriptor \<Rightarrow> descriptor" where
  "initial_descriptor e d =
     (if d = DStr ''<dynamic>'' \<or> d = DNone then get_default_model e else d)"

text \<open>\<^verbatim>\<open>LLM.from_descriptor\<close>: the warnings emitted, and the handle or the exception raised.\<close>

definition from_descriptor :: "env \<Rightarrow> descriptor \<Rightarrow> kwargs \<Rightarrow> warning list \<times> (error + LLM)" where
  "from_descriptor e d kw =
     (case initial_descriptor e d of
        DLLM h \<Rightarrow> ([], Inr h)
      | DStr s \<Rightarrow> from_string e s kw
      | _ \<Rightarrow> ([], Inl (AssertionError ''model_identifier must be a string or LLM object'')))"

section \<open>Direct generation from a handle (lmql/api/llm.py, LLM.generate)\<close>

text \<open>
  The keyword arguments handed to the query hold option values and the handle itself.
  The query (\<^verbatim>\<open>generate_query\<close>, run by the query interpreter) is a parameter: it returns
  a list of results or fails with an exception of its own, which \<^verbatim>\<open>generate\<close> lets through.
\<close>

datatype qval = QModel LLM | QVal pyval

type_synonym query_kwargs = "(string \<times> qval) list"

datatype 'r generated = Single 'r | Multiple "'r list"

datatype 'x failure = Propagated 'x | Raised error

text \<open>Lines 100-104: the arguments the query is called with.\<close>

definition generate_arguments :: "LLM \<Rightarrow> int option \<Rightarrow> query_kwargs \<Rightarrow> int option \<times> query_kwargs" where
  "generate_arguments self max_tokens kw =
     (let kw1 = AList.update ''model'' (QModel self) kw
      in case max_tokens of
           None \<Rightarrow> (None, kw1)
         | Some n \<Rightarrow> (Some (n + 1), AList.update ''chunksize'' (QVal (PInt n)) kw1))"

definition LLM_generate ::
  "(string \<Rightarrow> int option \<Rightarrow> query_kwargs \<Rightarrow> 'x + 'r list) \<Rightarrow> LLM \<Rightarrow> string \<Rightarrow> int option
     \<Rightarrow> query_kwargs \<Rightarrow> 'x failure + 'r generated" where
  "LLM_generate generate_query self prompt max_tokens kw =
     (let (max_tokens1, kw1) = generate_arguments self max_tokens kw
      in case generate_query prompt max_tokens1 kw1 of
           Inl x \<Rightarrow> Inl (Propagated x)
         | Inr result \<Rightarrow>
             if length result = 0 then Inl (Raised (ValueError ''No result returned from query''))
             else if length result = 1 then Inr (Single (result ! 0))
             else Inr (Multiple result))"

section \<open>The transformers backend (lmql/models/lmtp/backends/transformers_model.py)\<close>

text \<open>
  Token ids are natural numbers, scores are real numbers (the rounding of the floating
  point numbers torch computes with is not modelled). A batch is a list of rows.
\<close>

type_synonym token = nat

text \<open>\<^verbatim>\<open>torch.log_softmax(x, dim=-1)\<close> on one row.\<close>

definition log_softmax :: "real list \<Rightarrow> real list" where
  "log_softmax xs = map (\<lambda>x. x - ln (sum_list (map exp xs))) xs"

text \<open>\<^verbatim>\<open>torch.tensor\<close> of a nested list: the rows must have one length.\<close>

definition rectangular :: "'a list list \<Rightarrow> bool" where
  "rectangular xss = (case xss of [] \<Rightarrow> True | r # rs \<Rightarrow> list_all (\<lambda>x. length x = length r) rs)"

definition to_tensor :: "'a list list \<Rightarrow> error + 'a list list" where
  "to_tensor xss = (if rectangular xss then Inr xss else Inl (ValueError ''expected sequence of length''))"

text \<open>
  The language model behind the backend is a parameter: its forward pass over whole
  sequences (logits of shape batch, position, vocabulary), its raw next-token scores for
  the sequences decoded so far (one row per batch element), its end-of-sequence id and
  its sampler for a positive temperature, which threads a generator state \<open>'g\<close>.
  \<open>'k\<close> stands for the extra keyword arguments of \<^verbatim>\<open>score\<close>.
\<close>

record ('k, 'g) causal_lm =
  lm_forward :: "'k \<Rightarrow> token list list \<Rightarrow> nat list list \<Rightarrow> real list list list"
  lm_next_scores :: "nat list list \<Rightarrow> token list list \<Rightarrow> real list list"
  lm_sample :: "real \<Rightarrow> 'g \<Rightarrow> real list \<Rightarrow> token \<times> 'g"
  eos_token_id :: token

text \<open>
  \<^verbatim>\<open>logits.gather(-1, index.unsqueeze(-1))\<close>: the index may be shorter than the logits
  along the batch and the position, never longer, and every index lies inside the
  vocabulary; torch raises a \<^verbatim>\<open>RuntimeError\<close> otherwise.
\<close>

fun gather_row :: "real list list \<Rightarrow> token list \<Rightarrow> error + real list" where
  "gather_row ls [] = Inr []"
| "gather_row [] (t # ts) = Inl RuntimeError"
| "gather_row (l # ls) (t # ts) =
     (if t < length l
      then (case gather_row ls ts of Inl e \<Rightarrow> Inl e | Inr r \<Rightarrow> Inr (l ! t # r))
      else Inl RuntimeError)"

fun gather :: "real list list list \<Rightarrow> token list list \<Rightarrow> error + real list list" where
  "gather lss [] = Inr []"
| "gather [] (ts # tss) = Inl RuntimeError"
| "gather (ls # lss) (ts # tss) =
     (case gather_row ls ts of
        Inl e \<Rightarrow> Inl e
      | Inr r \<Rightarrow> (case gather lss tss of Inl e \<Rightarrow> Inl e | Inr rs \<Rightarrow> Inr (r # rs)))"

text \<open>
  \<^verbatim>\<open>TransformersLLM.score\<close>. An empty batch becomes a tensor of one dimension, which the
  slice \<^verbatim>\<open>input_ids[:,1:]\<close> refuses at the latest.
\<close>

definition TransformersLLM_score ::
  "('k, 'g) causal_lm \<Rightarrow> token list list \<Rightarrow> nat list list \<Rightarrow> 'k \<Rightarrow> error + real list list" where
  "TransformersLLM_score m input_ids attention_mask model_kwargs =
     (case to_tensor input_ids of
        Inl e \<Rightarrow> Inl e
      | Inr ids \<Rightarrow>
          (case to_tensor attention_mask of
             Inl e \<Rightarrow> Inl e
           | Inr att \<Rightarrow>
               if ids = [] then Inl IndexError
               else
                 (let logits = lm_forward m model_kwargs ids att;
                      next_token_logits = map butlast logits;
                      next_token_logits = map (map log_softmax) next_token_logits
                  in case gather next_token_logits (map (drop 1) ids) of
                       Inl e \<Rightarrow> Inl e
                     | Inr token_scores \<Rightarrow> Inr (map (\<lambda>scores. 0 # scores) token_scores))))"

subsection \<open>The bias processor\<close>

text \<open>A bias set is a dictionary from token ids to adjustments.\<close>

type_synonym bias_set = "(token \<times> real) list"

text \<open>
  Modelled from the spec: \<^verbatim>\<open>make_bias_tensor\<close> is a method of the base class \<^verbatim>\<open>LMTPModel\<close>,
  which is not among these sources. The spec's bias tensor builder returns a dense array
  of length \<open>vocab_size\<close>, 0.0 everywhere except at the ids present in the bias set, where
  it holds the supplied adjustment.
\<close>

definition make_bias_tensor :: "bias_set \<Rightarrow> nat \<Rightarrow> real list" where
  "make_bias_tensor bias vocab_size =
     map (\<lambda>i. case map_of bias i of None \<Rightarrow> 0 | Some v \<Rightarrow> v) [0..<vocab_size]"

text \<open>
  Modelled from the spec: the call \<^verbatim>\<open>make_bias_tensor(logit_biases, vocab_size)\<close> under the
  call-count instrumentation of section 8 of the spec. The call itself advances the count
  of the calls made so far and hands it back with the tensor; whoever builds a tensor
  goes through this call and so is counted.
\<close>

definition make_bias_tensor_call :: "nat \<Rightarrow> bias_set \<Rightarrow> nat \<Rightarrow> real list \<times> nat" where
  "make_bias_tensor_call calls bias vocab_size = (make_bias_tensor bias vocab_size, Suc calls)"

text \<open>
  The closure variable \<^verbatim>\<open>bias_tensors\<close> of \<^verbatim>\<open>logits_processors\<close>, and beside it the count of
  the calls of \<^verbatim>\<open>make_bias_tensor\<close>, which only \<open>make_bias_tensor_call\<close> advances: the
  processor passes it to the builder and stores what the builder hands back.
\<close>

record processor_state =
  bias_tensors :: "real list option"
  builds :: nat

text \<open>\<^verbatim>\<open>scores.shape[-1]\<close> of a batch with at least one row.\<close>

definition shape_last :: "real list list \<Rightarrow> nat" where
  "shape_last scores = (case scores of [] \<Rightarrow> 0 | r # rs \<Rightarrow> length r)"

text \<open>One row plus the bias tensor, with torch's broadcasting of a dimension of size one.\<close>

definition broadcast_add :: "real list \<Rightarrow> real list \<Rightarrow> error + real list" where
  "broadcast_add row bias =
     (if length row = length bias then Inr (map2 (+) row bias)
      else if length bias = 1 then Inr (map (\<lambda>x. x + hd bias) row)
      else if length row = 1 then Inr (map (\<lambda>b. hd row + b) bias)
      else Inl RuntimeError)"

fun add_bias :: "real list list \<Rightarrow> real list \<Rightarrow> error + real list list" where
  "add_bias [] bias = Inr []"
| "add_bias (row # rows) bias =
     (case broadcast_add row bias of
        Inl e \<Rightarrow> Inl e
      | Inr r \<Rightarrow> (case add_bias rows bias of Inl e \<Rightarrow> Inl e | Inr rs \<Rightarrow> Inr (r # rs)))"

type_synonym 'p logits_processor =
  "'p \<Rightarrow> token list list \<Rightarrow> real list list \<Rightarrow> error + ('p \<times> real list list)"

text \<open>\<^verbatim>\<open>BatchLogitsProcessor.__call__\<close>, lines 94-100.\<close>

definition BatchLogitsProcessor :: "bias_set \<Rightarrow> processor_state logits_processor" where
  "BatchLogitsProcessor logit_biases st input_ids scores =
     (let (t, st1) =
            (case bias_tensors st of
               None \<Rightarrow>
                 (let (built, calls) =
                        make_bias_tensor_call (builds st) logit_biases (shape_last scores)
                  in (built, \<lparr>bias_tensors = Some built, builds = calls\<rparr>))
             | Some cached \<Rightarrow> (cached, st))
      in case add_bias scores t of
           Inl e \<Rightarrow> Inl e
         | Inr summed \<Rightarrow> Inr (st1, map log_softmax summed))"

text \<open>
  \<^verbatim>\<open>TransformersLLM.logits_processors\<close>, lines 86-102: the fresh closure state and the list
  of processors, which is empty for an empty bias set.
\<close>

definition logits_processors :: "bias_set \<Rightarrow> processor_state \<times> processor_state logits_processor list" where
  "logits_processors logit_biases =
     (let st0 = \<lparr>bias_tensors = None, builds = 0\<rparr>
      in if length logit_biases = 0 then (st0, [])
         else (st0, [BatchLogitsProcessor logit_biases]))"

subsection \<open>The streamer in the place of a stopping criterion\<close>

text \<open>
  A streamer is an observer with a state of its own, \<open>'o\<close>, that returns normally.
  \<^verbatim>\<open>TokenStreamerDisguisedAsStoppingCriterion.__call__\<close>, lines 108-110.
\<close>

type_synonym 'o token_streamer = "'o \<Rightarrow> token list list \<Rightarrow> real list list \<Rightarrow> 'o"

type_synonym 'o stopping_criterion = "'o \<Rightarrow> token list list \<Rightarrow> real list list \<Rightarrow> 'o \<times> bool"

definition TokenStreamerDisguisedAsStoppingCriterion :: "'o token_streamer \<Rightarrow> 'o stopping_criterion" where
  "TokenStreamerDisguisedAsStoppingCriterion token_streamer ob input_ids scores =
     (token_streamer ob input_ids scores, False)"

subsection \<open>The decoding loop\<close>

text \<open>
  Modelled from the spec: the decoding loop is \<^verbatim>\<open>self.model.generate\<close> of the transformers
  library, which is not among these sources. Following section 4.3 of the spec, the steps
  are sequential; each step takes the model's raw scores for the sequences so far, passes
  them through the logits processors, chooses one token per batch element (the arg-max
  when not sampling), pads batch elements that already ended with the end-of-sequence
  id, records the step's scores, and calls the stopping hook once with the sequences so
  far and the step's scores. Decoding ends when the hook says so, when every batch
  element has produced the end-of-sequence id, or after \<open>max_new_tokens\<close> steps.
\<close>

text \<open>Modelled from the spec: the deterministic choice, the first index of the largest score.\<close>

definition argmax :: "real list \<Rightarrow> nat" where
  "argmax xs =
     (case xs of
        [] \<Rightarrow> 0
      | x # rest \<Rightarrow>
          fst (foldl (\<lambda>(best, bv, i) v. if bv < v then (i, v, Suc i) else (best, bv, Suc i))
                 (0, x, 1) rest))"

text \<open>Modelled from the spec: one token per batch element, the generator state threaded through.\<close>

fun select_tokens :: "('g \<Rightarrow> real list \<Rightarrow> token \<times> 'g) \<Rightarrow> 'g \<Rightarrow> real list list \<Rightarrow> token list \<times> 'g" where
  "select_tokens sel g [] = ([], g)"
| "select_tokens sel g (row # rows) =
     (let (t, g1) = sel g row; (ts, g2) = select_tokens sel g1 rows in (t # ts, g2))"

text \<open>Modelled from the spec: the loop passes a step's scores through the processors in order.\<close>

fun apply_processors :: "'p logits_processor list \<Rightarrow> 'p logits_processor" where
  "apply_processors [] p ids sc = Inr (p, sc)"
| "apply_processors (f # fs) p ids sc =
     (case f p ids sc of Inl e \<Rightarrow> Inl e | Inr (p1, sc1) \<Rightarrow> apply_processors fs p1 ids sc1)"

text \<open>Modelled from the spec: the loop stops when one of the stopping criteria says so.\<close>

fun apply_criteria :: "'o stopping_criterion list \<Rightarrow> 'o stopping_criterion" where
  "apply_criteria [] ob ids sc = (ob, False)"
| "apply_criteria (c # cs) ob ids sc =
     (let (ob1, stop) = c ob ids sc
      in if stop then (ob1, True) else apply_criteria cs ob1 ids sc)"

text \<open>
  Modelled from the spec: the state of the loop, with the state of the processors' closure,
  of the streamer and of the sampler's generator.
\<close>

record ('p, 'o, 'g) decode_state =
  sequences :: "token list list"
  step_scores :: "real list list list"
  finished :: "bool list"
  proc_state :: 'p
  observer :: 'o
  generator :: 'g

text \<open>Modelled from the spec: at most as many steps as the first argument says.\<close>

fun decode ::
  "nat \<Rightarrow> (token list list \<Rightarrow> real list list) \<Rightarrow> ('g \<Rightarrow> real list \<Rightarrow> token \<times> 'g) \<Rightarrow> token
     \<Rightarrow> 'p logits_processor list \<Rightarrow> 'o stopping_criterion list
     \<Rightarrow> ('p, 'o, 'g) decode_state \<Rightarrow> error + ('p, 'o, 'g) decode_state" where
  "decode 0 nxt sel eos ps cs st = Inr st"
| "decode (Suc k) nxt sel eos ps cs st =
     (case apply_processors ps (proc_state st) (sequences st) (nxt (sequences st)) of
        Inl e \<Rightarrow> Inl e
      | Inr (p1, sc) \<Rightarrow>
          (let (chosen, g1) = select_tokens sel (generator st) sc;
               toks = map2 (\<lambda>f t. if f then eos else t) (finished st) chosen;
               seqs1 = map2 (\<lambda>s t. s @ [t]) (sequences st) toks;
               fin1 = map2 (\<lambda>f t. f \<or> t = eos) (finished st) toks;
               (ob1, stop) = apply_criteria cs (observer st) seqs1 sc;
               st1 = \<lparr>sequences = seqs1, step_scores = step_scores st @ [sc],
                      finished = fin1, proc_state = p1, observer = ob1, generator = g1\<rparr>
           in if stop \<or> list_all (\<lambda>f. f) fin1 then Inr st1
              else decode k nxt sel eos ps cs st1))"

text \<open>
  Modelled from the spec: the library call \<^verbatim>\<open>self.model.generate\<close> with the keyword arguments
  \<^verbatim>\<open>TransformersLLM.generate\<close> passes; sampling when \<open>do_sample\<close> holds, the arg-max otherwise.
\<close>

definition model_generate ::
  "('k, 'g) causal_lm \<Rightarrow> token list list \<Rightarrow> bool \<Rightarrow> nat list list \<Rightarrow> real \<Rightarrow> nat
     \<Rightarrow> 'p logits_processor list \<Rightarrow> 'p \<Rightarrow> 'o stopping_criterion list \<Rightarrow> 'o \<Rightarrow> 'g
     \<Rightarrow> error + ('p, 'o, 'g) decode_state" where
  "model_generate m input_ids do_sample attention_mask temperature max_new_tokens
       logits_processor p0 stopping_criteria ob0 g0 =
     decode max_new_tokens (lm_next_scores m attention_mask)
       (if do_sample then lm_sample m temperature else (\<lambda>g row. (argmax row, g)))
       (eos_token_id m) logits_processor stopping_criteria
       \<lparr>sequences = input_ids, step_scores = [], finished = map (\<lambda>s. False) input_ids,
        proc_state = p0, observer = ob0, generator = g0\<rparr>"

record LMTPModelResult =
  result_sequences :: "token list list"
  result_scores :: "real list list list"

text \<open>
  \<^verbatim>\<open>TransformersLLM.generate\<close>, lines 64-84. Beside the result it returns the state of the
  bias processor and of the streamer after the call, for the properties below.
\<close>

definition TransformersLLM_generate ::
  "('k, 'g) causal_lm \<Rightarrow> token list list \<Rightarrow> nat list list \<Rightarrow> real \<Rightarrow> nat \<Rightarrow> bias_set
     \<Rightarrow> 'o token_streamer \<Rightarrow> 'o \<Rightarrow> 'g \<Rightarrow> error + (LMTPModelResult \<times> processor_state \<times> 'o)" where
  "TransformersLLM_generate m input_ids attention_mask temperature max_new_tokens bias_tensor
       streamer ob0 g0 =
     (case to_tensor input_ids of
        Inl e \<Rightarrow> Inl e
      | Inr ids \<Rightarrow>
          (case to_tensor attention_mask of
             Inl e \<Rightarrow> Inl e
           | Inr att \<Rightarrow>
               (let (p0, procs) = logits_processors bias_tensor
                in case model_generate m ids (temperature > 0) att temperature max_new_tokens
                          procs p0 [TokenStreamerDisguisedAsStoppingCriterion streamer] ob0 g0 of
                     Inl e \<Rightarrow> Inl e
                   | Inr st \<Rightarrow>
                       Inr (\<lparr>result_sequences = sequences st, result_scores = step_scores st\<rparr>,
                            proc_state st, observer st))))"

text \<open>
  The call to compare with: the same as \<^verbatim>\<open>TransformersLLM.generate\<close>, but with no stopping
  criterion handed to the loop, hence with no streamer. The sources have no such function.
\<close>

definition generate_without_streamer ::
  "('k, 'g) causal_lm \<Rightarrow> token list list \<Rightarrow> nat list list \<Rightarrow> real \<Rightarrow> nat \<Rightarrow> bias_set
     \<Rightarrow> 'g \<Rightarrow> error + LMTPModelResult" where
  "generate_without_streamer m input_ids attention_mask temperature max_new_tokens bias_tensor g0 =
     (case to_tensor input_ids of
        Inl e \<Rightarrow> Inl e
      | Inr ids \<Rightarrow>
          (case to_tensor attention_mask of
             Inl e \<Rightarrow> Inl e
           | Inr att \<Rightarrow>
               (let (p0, procs) = logits_processors bias_tensor
                in case model_generate m ids (temperature > 0) att temperature max_new_tokens
                          procs p0 [] () g0 of
                     Inl e \<Rightarrow> Inl e
                   | Inr st \<Rightarrow>
                       Inr \<lparr>result_sequences = sequences st, result_scores = step_scores st\<rparr>)))"

text \<open>
  A processor to compare with, which the sources do not have: it keeps no cache and calls
  the builder at every step. Its scores are those of \<^verbatim>\<open>BatchLogitsProcessor\<close>; its count of
  builds is not.
\<close>

definition RebuildingLogitsProcessor :: "bias_set \<Rightarrow> processor_state logits_processor" where
  "RebuildingLogitsProcessor logit_biases st input_ids scores =
     (let (built, calls) = make_bias_tensor_call (builds st) logit_biases (shape_last scores)
      in case add_bias scores built of
           Inl e \<Rightarrow> Inl e
         | Inr summed \<Rightarrow>
             Inr (\<lparr>bias_tensors = Some built, builds = calls\<rparr>, map log_softmax summed))"

text \<open>A loop state without its streamer's state, to compare runs with different streamers.\<close>

definition forget_observer :: "('p, 'o, 'g) decode_state \<Rightarrow> ('p, unit, 'g) decode_state" where
  "forget_observer st =
     \<lparr>sequences = sequences st, step_scores = step_scores st, finished = finished st,
      proc_state = proc_state st, observer = (), generator = generator st\<rparr>"


section \<open>Example surroundings\<close>

text \<open>
  An alias table with one entry, the default model of line 231 and a file system on which
  no path exists.
\<close>

definition example_env :: env where
  "example_env =
     \<lparr>model_name_aliases = [''chatgpt'' \<mapsto> ''openai/gpt-3.5-turbo''],
      default_model = DStr ''openai/gpt-3.5-turbo-instruct'',
      path_exists = (\<lambda>p. False)\<rparr>"

text \<open>
  A language model over three tokens: constant logits in the forward pass, and raw
  next-token scores that always prefer token 1. Token 2 ends a sequence.
\<close>

definition toy_lm :: "(unit, unit) causal_lm" where
  "toy_lm =
     \<lparr>lm_forward = (\<lambda>k ids att. map (map (\<lambda>t. [0, 0, 0])) ids),
      lm_next_scores = (\<lambda>att seqs. map (\<lambda>s. [0, 1, 0]) seqs),
      lm_sample = (\<lambda>temperature g row. (0, g)),
      eos_token_id = 2\<rparr>"

section \<open>Auxiliary facts\<close>

subsection \<open>Strings and the resolver's branches\<close>

lemma startswith_append: "startswith s p \<Longrightarrow> s = p @ drop (length p) s"
  unfolding startswith_def by (metis append_take_drop_id)

lemma llama_cpp_case_aliases:
  "llama_cpp_case (e\<lparr>model_name_aliases := al\<rparr>) = llama_cpp_case e"
  by (intro ext) (simp add: llama_cpp_case_def)

lemma lmtp_family_aliases:
  "lmtp_family (e\<lparr>model_name_aliases := al\<rparr>) = lmtp_family e"
  by (intro ext) (simp only: lmtp_family_def llama_cpp_case_aliases)

lemma map_of_random_case:
  "map_of (random_case kw) ''inprocess'' = Some (PBool True)"
  "map_of (random_case kw) ''async_transport'' = Some (PBool True)"
  "map_of (random_case kw) ''tokenizer'' =
     Some (case map_of kw ''vocab'' of None \<Rightarrow> PStr ''gpt2'' | Some v \<Rightarrow> v)"
  by (auto simp add: random_case_def Let_def update_conv' dict_contains_def dict_get_def
      split: option.splits)

subsection \<open>Log-probabilities\<close>

lemma sum_list_exp_nonneg: "0 \<le> sum_list (map exp (xs :: real list))"
  by (rule sum_list_nonneg) auto

lemma sum_list_exp_pos: "xs \<noteq> [] \<Longrightarrow> 0 < sum_list (map exp (xs :: real list))"
proof (cases xs)
  case Nil
  assume "xs \<noteq> []"
  with Nil show ?thesis by simp
next
  case (Cons a as)
  have "0 < exp a + sum_list (map exp as)"
    using sum_list_exp_nonneg [of as] exp_gt_zero [of a] by linarith
  then show ?thesis using Cons by simp
qed

lemma sum_list_divide: "sum_list (map (\<lambda>x. f x / c) xs) = sum_list (map f xs) / (c :: real)"
  by (induction xs) (simp_all add: add_divide_distrib)

lemma log_softmax_normalised:
  assumes "xs \<noteq> []"
  shows "sum_list (map exp (log_softmax xs)) = 1"
proof -
  let ?S = "sum_list (map exp xs)"
  have pos: "0 < ?S" using assms by (rule sum_list_exp_pos)
  have "map exp (log_softmax xs) = map (\<lambda>x. exp x / ?S) xs"
    using pos by (simp add: log_softmax_def exp_diff)
  then have "sum_list (map exp (log_softmax xs)) = sum_list (map (\<lambda>x. exp x / ?S) xs)"
    by simp
  also have "\<dots> = sum_list (map exp xs) / ?S"
    by (rule sum_list_divide)
  also have "\<dots> = 1" using pos by simp
  finally show ?thesis .
qed

lemma length_log_softmax [simp]: "length (log_softmax xs) = length xs"
  by (simp add: log_softmax_def)

subsection \<open>Gathering the scores of the observed tokens\<close>

lemma gather_row_ok:
  "length ts \<le> length ls \<Longrightarrow> (\<forall>j<length ts. ts ! j < length (ls ! j))
     \<Longrightarrow> gather_row ls ts = Inr (map (\<lambda>j. ls ! j ! (ts ! j)) [0..<length ts])"
proof (induction ls ts rule: gather_row.induct)
  case (1 ls)
  then show ?case by simp
next
  case (2 t ts)
  then show ?case by simp
next
  case (3 l ls t ts)
  have h0: "t < length l" using 3(3) by auto
  have hs: "\<forall>j<length ts. ts ! j < length (ls ! j)"
    using 3(3) by auto
  have ih: "gather_row ls ts = Inr (map (\<lambda>j. ls ! j ! (ts ! j)) [0..<length ts])"
    using 3(1) [OF h0] 3(2) hs by simp
  have "map (\<lambda>j. (l # ls) ! j ! ((t # ts) ! j)) [0..<length (t # ts)]
        = l ! t # map (\<lambda>j. ls ! j ! (ts ! j)) [0..<length ts]"
    by (simp add: upt_conv_Cons map_Suc_upt [symmetric] del: upt_Suc)
  then show ?case using h0 ih by simp
qed

lemma gather_ok:
  "length tss \<le> length lss
     \<Longrightarrow> (\<forall>b<length tss. length (tss ! b) \<le> length (lss ! b)
            \<and> (\<forall>j<length (tss ! b). tss ! b ! j < length (lss ! b ! j)))
     \<Longrightarrow> gather lss tss =
           Inr (map (\<lambda>b. map (\<lambda>j. lss ! b ! j ! (tss ! b ! j)) [0..<length (tss ! b)])
                  [0..<length tss])"
proof (induction lss tss rule: gather.induct)
  case (1 lss)
  then show ?case by simp
next
  case (2 ts tss)
  then show ?case by simp
next
  case (3 ls lss ts tss)
  have r: "gather_row ls ts = Inr (map (\<lambda>j. ls ! j ! (ts ! j)) [0..<length ts])"
    using 3(3) by (intro gather_row_ok) auto
  have hs: "\<forall>b<length tss. length (tss ! b) \<le> length (lss ! b)
            \<and> (\<forall>j<length (tss ! b). tss ! b ! j < length (lss ! b ! j))"
    using 3(3) by auto
  have ih: "gather lss tss =
      Inr (map (\<lambda>b. map (\<lambda>j. lss ! b ! j ! (tss ! b ! j)) [0..<length (tss ! b)]) [0..<length tss])"
    using 3(1) [OF r] 3(2) hs by simp
  have "map (\<lambda>b. map (\<lambda>j. (ls # lss) ! b ! j ! ((ts # tss) ! b ! j)) [0..<length ((ts # tss) ! b)])
          [0..<length (ts # tss)]
        = map (\<lambda>j. ls ! j ! (ts ! j)) [0..<length ts]
          # map (\<lambda>b. map (\<lambda>j. lss ! b ! j ! (tss ! b ! j)) [0..<length (tss ! b)]) [0..<length tss]"
    by (simp add: upt_conv_Cons map_Suc_upt [symmetric] del: upt_Suc)
  then show ?case using r ih by simp
qed

subsection \<open>The bias processor and the loop\<close>


lemma length_make_bias_tensor [simp]: "length (make_bias_tensor bias V) = V"
  by (simp add: make_bias_tensor_def)




text \<open>The example model under the bias that adds 5 to token 1: the tensor and the token chosen.\<close>

lemma toy_bias_tensor: "make_bias_tensor [(Suc 0, 5)] (Suc (Suc (Suc 0))) = [0, 5, 0]"
  by (simp add: make_bias_tensor_def upt_rec)

lemma toy_argmax: "argmax (log_softmax [0, 6, 0]) = 1"
  by (simp add: argmax_def log_softmax_def)


text \<open>A run with a streamer and the run without one differ in the streamer's state only.\<close>

lemma decode_forget_observer:
  "map_sum id forget_observer
      (decode k nxt sel eos ps [TokenStreamerDisguisedAsStoppingCriterion streamer] st)
   = decode k nxt sel eos ps [] (forget_observer st)"
proof (induction k arbitrary: st)
  case 0
  then show ?case by simp
next
  case (Suc k)
  show ?case
  proof (cases "apply_processors ps (proc_state st) (sequences st) (nxt (sequences st))")
    case (Inl e)
    then show ?thesis by (simp add: forget_observer_def)
  next
    case (Inr r)
    obtain p1 sc where r: "r = (p1, sc)" by (cases r)
    obtain chosen g1 where sel: "select_tokens sel (generator st) sc = (chosen, g1)"
      by (cases "select_tokens sel (generator st) sc")
    let ?toks = "map2 (\<lambda>f t. if f then eos else t) (finished st) chosen"
    let ?seqs1 = "map2 (\<lambda>s t. s @ [t]) (sequences st) ?toks"
    let ?fin1 = "map2 (\<lambda>f t. f \<or> t = eos) (finished st) ?toks"
    let ?st1 = "\<lparr>sequences = ?seqs1, step_scores = step_scores st @ [sc], finished = ?fin1,
                 proc_state = p1, observer = streamer (observer st) ?seqs1 sc, generator = g1\<rparr>"
    have l: "decode (Suc k) nxt sel eos ps [TokenStreamerDisguisedAsStoppingCriterion streamer] st
             = (if list_all (\<lambda>f. f) ?fin1 then Inr ?st1
                else decode k nxt sel eos ps [TokenStreamerDisguisedAsStoppingCriterion streamer] ?st1)"
      using Inr r sel by (simp add: Let_def TokenStreamerDisguisedAsStoppingCriterion_def)
    have rr: "decode (Suc k) nxt sel eos ps [] (forget_observer st)
             = (if list_all (\<lambda>f. f) ?fin1 then Inr (forget_observer ?st1)
                else decode k nxt sel eos ps [] (forget_observer ?st1))"
      using Inr r sel by (simp add: Let_def forget_observer_def)
    show ?thesis
      unfolding l rr using Suc.IH [of ?st1] by simp
  qed
qed

text \<open>The stopping hook of the loop is live: a criterion that says "stop" ends decoding after one step.\<close>

lemma stopping_criterion_ends_decoding:
  "\<exists>st1. decode (Suc k) nxt sel eos [] [\<lambda>ob ids sc. (ob, True)] st = Inr st1
          \<and> length (step_scores st1) = Suc (length (step_scores st))"
  by (simp add: Let_def split: prod.splits)

section \<open>Properties of the resolver\<close>

text \<open>
  C8: a handle passed to the resolver comes back as it is, whatever the options and the
  surroundings: no adapter is built, nothing is warned about, no field changes.
\<close>

theorem from_descriptor_handle_passthrough:
  "from_descriptor e (DLLM h) kw = ([], Inr h)"
  by (simp add: from_descriptor_def initial_descriptor_def)

text \<open>
  C1, as the code has it: when the identifier is a key of the alias table, the resolver
  goes on with the aliased identifier (the outcome is the one of resolving the aliased
  identifier with no alias table), and the handle stores the aliased identifier, since
  line 170 reads \<^verbatim>\<open>original_name\<close> after line 167 has replaced the identifier.
\<close>

theorem alias_resolved_identifier_stored:
  assumes "initial_descriptor e d = DStr s"
    and "model_name_aliases e s = Some a"
    and "from_descriptor e d kw = (ws, Inr h)"
  shows "model_identifier h = a
         \<and> from_descriptor e d kw = from_string (e\<lparr>model_name_aliases := Map.empty\<rparr>) a kw"
proof -
  have eq: "from_descriptor e d kw = from_string (e\<lparr>model_name_aliases := Map.empty\<rparr>) a kw"
    using assms(1,2) unfolding from_descriptor_def from_string_def lmtp_family_aliases by simp
  have "from_string e s kw = (ws, Inr h)"
    using assms(1,3) by (simp add: from_descriptor_def)
  then have "model_identifier h = a"
    using assms(2)
    by (auto simp add: from_string_def Let_def
        split: descriptor.splits if_splits prod.splits sum.splits)
  then show ?thesis using eq by simp
qed

theorem alias_resolved_identifier_stored_witness:
  "initial_descriptor example_env (DStr ''chatgpt'') = DStr ''chatgpt''
   \<and> model_name_aliases example_env ''chatgpt'' = Some ''openai/gpt-3.5-turbo''
   \<and> from_descriptor example_env (DStr ''chatgpt'') [(''endpoint'', PStr ''host:9'')]
       = ([], Inr \<lparr>model_identifier = ''openai/gpt-3.5-turbo'',
                   adapter = Some (OpenAIModel ''gpt-3.5-turbo'' (PStr ''host:9'') []),
                   configuration_string = Some ''endpoint=host:9''\<rparr>)
   \<and> from_descriptor example_env (DStr ''chatgpt'') [(''endpoint'', PStr ''host:9'')]
       = from_string (example_env\<lparr>model_name_aliases := Map.empty\<rparr>) ''openai/gpt-3.5-turbo''
           [(''endpoint'', PStr ''host:9'')]"
proof -
  let ?h = "\<lparr>model_identifier = ''openai/gpt-3.5-turbo'',
             adapter = Some (OpenAIModel ''gpt-3.5-turbo'' (PStr ''host:9'') []),
             configuration_string = Some ''endpoint=host:9''\<rparr>"
  have a: "initial_descriptor example_env (DStr ''chatgpt'') = DStr ''chatgpt''"
    by (simp add: initial_descriptor_def)
  have b: "model_name_aliases example_env ''chatgpt'' = Some ''openai/gpt-3.5-turbo''"
    by (simp add: example_env_def)
  have c: "from_descriptor example_env (DStr ''chatgpt'') [(''endpoint'', PStr ''host:9'')]
             = ([], Inr ?h)"
    by (simp add: from_descriptor_def initial_descriptor_def from_string_def example_env_def
        dict_pop_def dict_get_def startswith_def configuration_representation_def)
  from alias_resolved_identifier_stored [OF a b c] a b c show ?thesis by simp
qed

text \<open>
  The claim as the spec words it fails: resolving the alias \<^verbatim>\<open>chatgpt\<close> gives a handle whose
  identifier is the aliased one, not the string the caller supplied.
\<close>

theorem alias_original_name_counterexample:
  "model_name_aliases example_env ''chatgpt'' = Some ''openai/gpt-3.5-turbo''
   \<and> from_descriptor example_env (DStr ''chatgpt'') []
       = ([], Inr \<lparr>model_identifier = ''openai/gpt-3.5-turbo'',
                   adapter = Some (OpenAIModel ''gpt-3.5-turbo'' PNone []),
                   configuration_string = Some []\<rparr>)
   \<and> model_identifier \<lparr>model_identifier = ''openai/gpt-3.5-turbo'',
                       adapter = Some (OpenAIModel ''gpt-3.5-turbo'' PNone []),
                       configuration_string = Some []\<rparr> \<noteq> ''chatgpt''"
  by (simp add: from_descriptor_def initial_descriptor_def from_string_def example_env_def
      dict_pop_def dict_get_def startswith_def configuration_representation_def)

text \<open>
  C5: whenever the resolver builds a handle (its input, after the default model has taken
  the place of \<^verbatim>\<open><dynamic>\<close> or \<^verbatim>\<open>None\<close>, is a string), the configuration string of the
  handle is the caller's options rendered as \<^verbatim>\<open>key=value\<close> in their order and joined by a
  comma and a space: \<^verbatim>\<open>endpoint\<close> is still among them and no forced option is. With no
  options it is the empty string.
\<close>

theorem configuration_string_caller_options:
  assumes "initial_descriptor e d = DStr s"
    and "from_descriptor e d kw = (ws, Inr h)"
  shows "configuration_string h = Some (py_join '', '' (map (\<lambda>(k, v). k @ ''='' @ py_str v) kw))
         \<and> py_join '', '' (map (\<lambda>(k, v). k @ ''='' @ py_str v) ([] :: kwargs)) = ''''"
  using assms
  by (auto simp add: from_descriptor_def from_string_def Let_def configuration_representation_def
      split: descriptor.splits if_splits prod.splits sum.splits)

theorem configuration_string_caller_options_witness:
  "initial_descriptor example_env (DStr ''local:foo'') = DStr ''local:foo''
   \<and> from_descriptor example_env (DStr ''local:foo'')
         [(''endpoint'', PStr ''host:9''), (''cuda'', PBool True), (''seed'', PInt 123)]
       = ([], Inr \<lparr>model_identifier = ''local:foo'',
                   adapter = Some (InProcess ''foo''
                     [(''cuda'', PBool True), (''seed'', PInt 123), (''inprocess'', PBool True)]),
                   configuration_string = Some ''endpoint=host:9, cuda=True, seed=123''\<rparr>)
   \<and> configuration_string \<lparr>model_identifier = ''local:foo'',
                   adapter = Some (InProcess ''foo''
                     [(''cuda'', PBool True), (''seed'', PInt 123), (''inprocess'', PBool True)]),
                   configuration_string = Some ''endpoint=host:9, cuda=True, seed=123''\<rparr>
       = Some (py_join '', '' (map (\<lambda>(k, v). k @ ''='' @ py_str v)
                 [(''endpoint'', PStr ''host:9''), (''cuda'', PBool True), (''seed'', PInt 123)]))"
proof -
  let ?kw = "[(''endpoint'', PStr ''host:9''), (''cuda'', PBool True), (''seed'', PInt 123)]"
  let ?h = "\<lparr>model_identifier = ''local:foo'',
             adapter = Some (InProcess ''foo''
               [(''cuda'', PBool True), (''seed'', PInt 123), (''inprocess'', PBool True)]),
             configuration_string = Some ''endpoint=host:9, cuda=True, seed=123''\<rparr>"
  have a: "initial_descriptor example_env (DStr ''local:foo'') = DStr ''local:foo''"
    by (simp add: initial_descriptor_def)
  have b: "from_descriptor example_env (DStr ''local:foo'') ?kw = ([], Inr ?h)"
    by (simp add: from_descriptor_def initial_descriptor_def from_string_def example_env_def
        lmtp_family_def dict_pop_def dict_get_def dict_contains_def startswith_def
        configuration_representation_def str_nat.simps)
  from configuration_string_caller_options [OF a b] a b show ?thesis by blast
qed

text \<open>
  C6: for the identifier \<^verbatim>\<open>random\<close> (not itself an alias) and any options, the options
  handed to the in-process adapter hold \<^verbatim>\<open>inprocess=True\<close> and \<^verbatim>\<open>async_transport=True\<close>, and
  \<^verbatim>\<open>tokenizer\<close> is the caller's \<^verbatim>\<open>vocab\<close> when there is one and \<^verbatim>\<open>gpt2\<close> otherwise. The adapter
  is built with exactly these options, unless the caller's own \<^verbatim>\<open>use_existing_configuration\<close>
  collides with the keyword of the call.
\<close>

theorem random_forced_options:
  assumes "model_name_aliases e ''random'' = None"
  shows "from_descriptor e (DStr ''random'') kw =
           ([], if dict_contains ''use_existing_configuration'' kw then Inl TypeError
                else Inr \<lparr>model_identifier = ''random'',
                          adapter = Some (InProcess ''random''
                                            (random_case (AList.delete ''endpoint'' kw))),
                          configuration_string = Some (configuration_representation kw)\<rparr>)
         \<and> map_of (random_case (AList.delete ''endpoint'' kw)) ''inprocess'' = Some (PBool True)
         \<and> map_of (random_case (AList.delete ''endpoint'' kw)) ''async_transport'' = Some (PBool True)
         \<and> map_of (random_case (AList.delete ''endpoint'' kw)) ''tokenizer'' =
             Some (case map_of kw ''vocab'' of None \<Rightarrow> PStr ''gpt2'' | Some v \<Rightarrow> v)"
proof -
  have dyn: "initial_descriptor e (DStr ''random'') = DStr ''random''"
    by (simp add: initial_descriptor_def)
  have inproc: "dict_get (random_case k) ''inprocess'' (PBool False) = PBool True" for k
    by (simp add: dict_get_def map_of_random_case)
  have uec: "dict_contains ''use_existing_configuration'' (random_case (AList.delete ''endpoint'' kw))
             = dict_contains ''use_existing_configuration'' kw"
    by (simp add: dict_contains_def random_case_def Let_def update_conv' delete_conv')
  have fam: "lmtp_family e ''random'' ep (AList.delete ''endpoint'' kw) =
     ([], if dict_contains ''use_existing_configuration'' kw then Inl TypeError
          else Inr (InProcess ''random'' (random_case (AList.delete ''endpoint'' kw))))" for ep
    by (simp add: lmtp_family_def Let_def startswith_def inproc uec)
  have "from_descriptor e (DStr ''random'') kw =
           ([], if dict_contains ''use_existing_configuration'' kw then Inl TypeError
                else Inr \<lparr>model_identifier = ''random'',
                          adapter = Some (InProcess ''random''
                                            (random_case (AList.delete ''endpoint'' kw))),
                          configuration_string = Some (configuration_representation kw)\<rparr>)"
    using assms
    by (simp add: from_descriptor_def dyn from_string_def Let_def dict_pop_def startswith_def fam)
  moreover have "map_of (AList.delete ''endpoint'' kw) ''vocab'' = map_of kw ''vocab''"
    by (simp add: delete_conv')
  ultimately show ?thesis
    by (simp add: map_of_random_case)
qed

theorem random_forced_options_witness:
  "model_name_aliases example_env ''random'' = None
   \<and> from_descriptor example_env (DStr ''random'')
         [(''vocab'', PStr ''gpt2-medium''), (''inprocess'', PBool False), (''endpoint'', PStr ''host:9'')]
       = ([], Inr \<lparr>model_identifier = ''random'',
                   adapter = Some (InProcess ''random''
                     [(''vocab'', PStr ''gpt2-medium''), (''inprocess'', PBool True),
                      (''tokenizer'', PStr ''gpt2-medium''), (''async_transport'', PBool True)]),
                   configuration_string =
                     Some ''vocab=gpt2-medium, inprocess=False, endpoint=host:9''\<rparr>)"
proof -
  have a: "model_name_aliases example_env ''random'' = None"
    by (simp add: example_env_def)
  from random_forced_options [OF a,
      of "[(''vocab'', PStr ''gpt2-medium''), (''inprocess'', PBool False), (''endpoint'', PStr ''host:9'')]"]
  show ?thesis
    using a
    by (simp add: random_case_def dict_contains_def dict_get_def configuration_representation_def)
qed

text \<open>
  C7: let the identifier, after the alias table, start with \<^verbatim>\<open>llama.cpp:\<close>, let the caller
  give no \<^verbatim>\<open>tokenizer\<close>, and let \<^verbatim>\<open>tokenizer.model\<close> not exist in the directory of the weights.
  Then the resolver warns once, sets \<^verbatim>\<open>tokenizer\<close> to \<^verbatim>\<open>huggyllama/llama-7b\<close> and goes on to
  build the adapter (a \<^verbatim>\<open>TypeError\<close> arises only when the caller asks for an in-process model
  and gives \<^verbatim>\<open>use_existing_configuration\<close> too). Moreover, whenever the resolver builds a
  handle with an out-of-process adapter and the caller gave no endpoint (or \<^verbatim>\<open>None\<close>), the
  adapter's endpoint is \<^verbatim>\<open>localhost:8080\<close>.
\<close>

theorem llama_cpp_tokenizer_fallback:
  "(initial_descriptor e d = DStr s
      \<and> mid = (case model_name_aliases e s of Some a \<Rightarrow> a | None \<Rightarrow> s)
      \<and> startswith mid ''llama.cpp:''
      \<and> \<not> dict_contains ''tokenizer'' kw
      \<and> \<not> path_exists e (path_join (dirname (py_replace ''llama.cpp:'' [] mid)) ''tokenizer.model'')
    \<longrightarrow> from_descriptor e d kw =
          ([TokenizerModelNotPresent ''huggyllama/llama-7b''],
           let kw1 = AList.update ''tokenizer'' (PStr ''huggyllama/llama-7b'')
                       (AList.delete ''endpoint'' kw);
               handle = (\<lambda>a. \<lparr>model_identifier = mid, adapter = Some a,
                              configuration_string = Some (configuration_representation kw)\<rparr>)
           in if truthy (dict_get kw ''inprocess'' (PBool False))
              then (if dict_contains ''use_existing_configuration'' kw then Inl TypeError
                    else Inr (handle (InProcess mid kw1)))
              else Inr (handle (LMTPModel mid
                          (if dict_get kw ''endpoint'' PNone = PNone then PStr ''localhost:8080''
                           else dict_get kw ''endpoint'' PNone) kw1))))
   \<and> (initial_descriptor e d = DStr s \<and> dict_get kw ''endpoint'' PNone = PNone
        \<and> from_descriptor e d kw = (ws, Inr h) \<and> adapter h = Some (LMTPModel m ep k)
      \<longrightarrow> ep = PStr ''localhost:8080'')"
proof -
  have A: "from_descriptor e d kw =
          ([TokenizerModelNotPresent ''huggyllama/llama-7b''],
           let kw1 = AList.update ''tokenizer'' (PStr ''huggyllama/llama-7b'')
                       (AList.delete ''endpoint'' kw);
               handle = (\<lambda>a. \<lparr>model_identifier = mid, adapter = Some a,
                              configuration_string = Some (configuration_representation kw)\<rparr>)
           in if truthy (dict_get kw ''inprocess'' (PBool False))
              then (if dict_contains ''use_existing_configuration'' kw then Inl TypeError
                    else Inr (handle (InProcess mid kw1)))
              else Inr (handle (LMTPModel mid
                          (if dict_get kw ''endpoint'' PNone = PNone then PStr ''localhost:8080''
                           else dict_get kw ''endpoint'' PNone) kw1)))"
    if h: "initial_descriptor e d = DStr s"
      "mid = (case model_name_aliases e s of Some a \<Rightarrow> a | None \<Rightarrow> s)"
      "startswith mid ''llama.cpp:''"
      "\<not> dict_contains ''tokenizer'' kw"
      "\<not> path_exists e (path_join (dirname (py_replace ''llama.cpp:'' [] mid)) ''tokenizer.model'')"
  proof -
    have n1: "mid \<noteq> ''<dynamic>''" "mid \<noteq> ''random''" "\<not> startswith mid ''openai/''"
      "\<not> startswith mid ''local:''"
    proof -
      obtain r where r: "mid = ''llama.cpp:'' @ r"
        using startswith_append [OF h(3)] by blast
      show "mid \<noteq> ''<dynamic>''" "mid \<noteq> ''random''" "\<not> startswith mid ''openai/''"
        "\<not> startswith mid ''local:''"
        by (simp_all add: r startswith_def)
    qed
    have tk: "\<not> dict_contains ''tokenizer'' (AList.delete ''endpoint'' kw)"
      using h(4) by (simp add: dict_contains_def delete_conv')
    have lc: "llama_cpp_case e mid (AList.delete ''endpoint'' kw) =
        ([TokenizerModelNotPresent ''huggyllama/llama-7b''],
         AList.update ''tokenizer'' (PStr ''huggyllama/llama-7b'') (AList.delete ''endpoint'' kw))"
      using tk h(5) by (simp add: llama_cpp_case_def Let_def dict_get_def dict_contains_def)
    have g1: "dict_get (AList.update ''tokenizer'' v (AList.delete ''endpoint'' kw)) ''inprocess'' dflt
              = dict_get kw ''inprocess'' dflt" for v dflt
      by (simp add: dict_get_def update_conv' delete_conv')
    have g2: "dict_contains ''use_existing_configuration''
                (AList.update ''tokenizer'' v (AList.delete ''endpoint'' kw))
              = dict_contains ''use_existing_configuration'' kw" for v
      by (simp add: dict_contains_def update_conv' delete_conv')
    have fam: "lmtp_family e mid ep (AList.delete ''endpoint'' kw) =
       ([TokenizerModelNotPresent ''huggyllama/llama-7b''],
        let kw1 = AList.update ''tokenizer'' (PStr ''huggyllama/llama-7b'')
                    (AList.delete ''endpoint'' kw)
        in if truthy (dict_get kw ''inprocess'' (PBool False))
           then (if dict_contains ''use_existing_configuration'' kw then Inl TypeError
                 else Inr (InProcess mid kw1))
           else Inr (LMTPModel mid (if ep = PNone then PStr ''localhost:8080'' else ep) kw1))" for ep
      using n1 h(3) by (simp add: lmtp_family_def Let_def lc g1 g2)
    have "from_descriptor e d kw = from_string e s kw"
      using h(1) by (simp add: from_descriptor_def)
    also have "\<dots> = ([TokenizerModelNotPresent ''huggyllama/llama-7b''],
           let kw1 = AList.update ''tokenizer'' (PStr ''huggyllama/llama-7b'')
                       (AList.delete ''endpoint'' kw);
               handle = (\<lambda>a. \<lparr>model_identifier = mid, adapter = Some a,
                              configuration_string = Some (configuration_representation kw)\<rparr>)
           in if truthy (dict_get kw ''inprocess'' (PBool False))
              then (if dict_contains ''use_existing_configuration'' kw then Inl TypeError
                    else Inr (handle (InProcess mid kw1)))
              else Inr (handle (LMTPModel mid
                          (if dict_get kw ''endpoint'' PNone = PNone then PStr ''localhost:8080''
                           else dict_get kw ''endpoint'' PNone) kw1)))"
      using n1 by (simp add: from_string_def h(2) [symmetric] dict_pop_def fam Let_def)
    finally show ?thesis .
  qed
  have B: "ep = PStr ''localhost:8080''"
    if h: "initial_descriptor e d = DStr s" "dict_get kw ''endpoint'' PNone = PNone"
      "from_descriptor e d kw = (ws, Inr h)"
      "adapter h = Some (LMTPModel m ep k)"
  proof -
    have fam: "lmtp_family e x PNone kk = (w, Inr (LMTPModel m ep k))
                 \<Longrightarrow> ep = PStr ''localhost:8080''" for x kk w
      by (auto simp add: lmtp_family_def Let_def split: if_splits prod.splits)
    show ?thesis
      using h
      by (auto simp add: from_descriptor_def from_string_def Let_def dict_pop_def
          split: descriptor.splits if_splits prod.splits sum.splits dest: fam)
  qed
  show ?thesis using A B by blast
qed

theorem llama_cpp_tokenizer_fallback_witness:
  "initial_descriptor example_env (DStr ''llama.cpp:/models/x/weights.bin'')
       = DStr ''llama.cpp:/models/x/weights.bin''
   \<and> startswith ''llama.cpp:/models/x/weights.bin'' ''llama.cpp:''
   \<and> \<not> dict_contains ''tokenizer'' []
   \<and> path_join (dirname (py_replace ''llama.cpp:'' [] ''llama.cpp:/models/x/weights.bin''))
         ''tokenizer.model'' = ''/models/x/tokenizer.model''
   \<and> \<not> path_exists example_env ''/models/x/tokenizer.model''
   \<and> dict_get [] ''endpoint'' PNone = PNone
   \<and> from_descriptor example_env (DStr ''llama.cpp:/models/x/weights.bin'') []
       = ([TokenizerModelNotPresent ''huggyllama/llama-7b''],
          Inr \<lparr>model_identifier = ''llama.cpp:/models/x/weights.bin'',
               adapter = Some (LMTPModel ''llama.cpp:/models/x/weights.bin''
                                 (PStr ''localhost:8080'')
                                 [(''tokenizer'', PStr ''huggyllama/llama-7b'')]),
               configuration_string = Some ''''\<rparr>)"
proof -
  let ?id = "''llama.cpp:/models/x/weights.bin''"
  have a: "initial_descriptor example_env (DStr ?id) = DStr ?id"
    by (simp add: initial_descriptor_def)
  have b: "?id = (case model_name_aliases example_env ?id of Some a \<Rightarrow> a | None \<Rightarrow> ?id)"
    by (simp add: example_env_def)
  have c: "startswith ?id ''llama.cpp:''"
    by (simp add: startswith_def)
  have d: "\<not> dict_contains ''tokenizer'' []"
    by (simp add: dict_contains_def)
  have p: "path_join (dirname (py_replace ''llama.cpp:'' [] ?id)) ''tokenizer.model''
             = ''/models/x/tokenizer.model''"
    by code_simp
  have f: "\<not> path_exists example_env
               (path_join (dirname (py_replace ''llama.cpp:'' [] ?id)) ''tokenizer.model'')"
    by (simp add: example_env_def)
  have g: "dict_get [] ''endpoint'' PNone = PNone"
    by (simp add: dict_get_def)
  from llama_cpp_tokenizer_fallback
         [of example_env "DStr ?id" ?id ?id "[]" "[TokenizerModelNotPresent ''huggyllama/llama-7b'']"
             "\<lparr>model_identifier = ?id,
               adapter = Some (LMTPModel ?id (PStr ''localhost:8080'')
                                 [(''tokenizer'', PStr ''huggyllama/llama-7b'')]),
               configuration_string = Some ''''\<rparr>"
             ?id "PStr ''localhost:8080''" "[(''tokenizer'', PStr ''huggyllama/llama-7b'')]"]
       a b c d f
  have "from_descriptor example_env (DStr ?id) []
       = ([TokenizerModelNotPresent ''huggyllama/llama-7b''],
          Inr \<lparr>model_identifier = ?id,
               adapter = Some (LMTPModel ?id (PStr ''localhost:8080'')
                                 [(''tokenizer'', PStr ''huggyllama/llama-7b'')]),
               configuration_string = Some ''''\<rparr>)"
    by (simp add: dict_get_def dict_contains_def configuration_representation_def)
  then show ?thesis
    using a c d p f g by (simp add: example_env_def)
qed

section \<open>Properties of direct generation\<close>

text \<open>
  C9: \<^verbatim>\<open>LLM.generate\<close> raises its \<^verbatim>\<open>ValueError\<close> exactly when the query returns an empty
  list of results, and it never returns an empty list as a success. (A failure of the
  query itself is passed on and is not this error.)
\<close>

theorem generate_empty_result_raises:
  "(LLM_generate q self prompt max_tokens kw
      = Inl (Raised (ValueError ''No result returned from query'')))
     = (case generate_arguments self max_tokens kw of (mt, kw1) \<Rightarrow> q prompt mt kw1 = Inr [])
   \<and> LLM_generate q self prompt max_tokens kw \<noteq> Inr (Multiple [])"
  by (auto simp add: LLM_generate_def split: prod.splits sum.splits)

section \<open>Properties of the transformers backend\<close>

text \<open>
  C4: for a batch of at least one sequence, all of one length \<open>n > 0\<close>, whose tokens lie
  inside the vocabulary, and a model whose forward pass returns logits of the shape
  batch, \<open>n\<close>, vocabulary, \<^verbatim>\<open>score\<close> returns one row of length \<open>n\<close> per sequence; position 0 of
  every row is 0, and position \<open>i\<close> from 1 to \<open>n - 1\<close> holds, from the one forward pass
  \<open>logits\<close> over the whole batch, the log-softmax of the logits at position \<open>i - 1\<close> read at
  the token observed at position \<open>i\<close>. That log-softmax is a log-probability: its
  exponentials sum to 1.
\<close>

theorem score_positions:
  assumes rows: "input_ids \<noteq> []" "list_all (\<lambda>r. length r = n) input_ids" "0 < n"
    and att: "rectangular attention_mask"
    and logits: "logits = lm_forward m model_kwargs input_ids attention_mask"
    and shape: "length logits = length input_ids"
      "list_all (\<lambda>row. length row = n \<and> list_all (\<lambda>v. length v = V) row) logits"
    and vocab: "list_all (list_all (\<lambda>t. t < V)) input_ids"
  shows "\<exists>res. TransformersLLM_score m input_ids attention_mask model_kwargs = Inr res
           \<and> length res = length input_ids
           \<and> (\<forall>b<length input_ids.
                 length (res ! b) = n \<and> res ! b ! 0 = 0
                 \<and> (\<forall>i. 1 \<le> i \<and> i < n \<longrightarrow>
                       res ! b ! i = log_softmax (logits ! b ! (i - 1)) ! (input_ids ! b ! i)
                       \<and> sum_list (map exp (log_softmax (logits ! b ! (i - 1)))) = 1))"
proof -
  let ?B = "length input_ids"
  let ?L = "map (map log_softmax) (map butlast logits)"
  let ?T = "map (drop 1) input_ids"
  have rect: "rectangular input_ids"
    using rows(1,2) by (cases input_ids) (auto simp add: rectangular_def list_all_iff)
  have len_ids: "length (input_ids ! b) = n" if "b < ?B" for b
    using rows(2) that by (simp add: list_all_length)
  have len_row: "length (logits ! b) = n" if "b < ?B" for b
    using shape that by (simp add: list_all_length)
  have len_v: "length (logits ! b ! j) = V" if "b < ?B" "j < n" for b j
    using shape that by (simp add: list_all_length)
  have tok: "input_ids ! b ! i < V" if "b < ?B" "i < n" for b i
    using vocab that len_ids [of b] by (simp add: list_all_length)
  have Lnth: "?L ! b ! j = log_softmax (logits ! b ! j)" if "b < ?B" "j < n - 1" for b j
    using that shape(1) len_row [of b] by (simp add: nth_butlast)
  have g: "gather ?L ?T =
      Inr (map (\<lambda>b. map (\<lambda>j. ?L ! b ! j ! (?T ! b ! j)) [0..<length (?T ! b)]) [0..<length ?T])"
  proof (rule gather_ok)
    show "length ?T \<le> length ?L" using shape(1) by simp
    show "\<forall>b<length ?T. length (?T ! b) \<le> length (?L ! b)
            \<and> (\<forall>j<length (?T ! b). ?T ! b ! j < length (?L ! b ! j))"
    proof (intro allI impI conjI)
      fix b assume b: "b < length ?T"
      then have b': "b < ?B" by simp
      show "length (?T ! b) \<le> length (?L ! b)"
        using b' shape(1) len_ids [OF b'] len_row [OF b'] by simp
      fix j assume j: "j < length (?T ! b)"
      then have j': "j < n - 1" using b' len_ids [OF b'] by simp
      have "?T ! b ! j = input_ids ! b ! Suc j"
        using b' j' len_ids [OF b'] by simp
      moreover have "length (?L ! b ! j) = V"
        using Lnth [OF b' j'] len_v [of b j] b' j' by simp
      ultimately show "?T ! b ! j < length (?L ! b ! j)"
        using tok [of b "Suc j"] b' j' by simp
    qed
  qed
  define res where "res = map (\<lambda>scores. 0 # scores)
      (map (\<lambda>b. map (\<lambda>j. ?L ! b ! j ! (?T ! b ! j)) [0..<length (?T ! b)]) [0..<length ?T])"
  have sc: "TransformersLLM_score m input_ids attention_mask model_kwargs = Inr res"
    using rect att rows(1) g
    by (simp add: TransformersLLM_score_def to_tensor_def logits [symmetric] res_def Let_def)
  have len_res: "length res = ?B" by (simp add: res_def)
  have per: "length (res ! b) = n \<and> res ! b ! 0 = 0
                 \<and> (\<forall>i. 1 \<le> i \<and> i < n \<longrightarrow>
                       res ! b ! i = log_softmax (logits ! b ! (i - 1)) ! (input_ids ! b ! i)
                       \<and> sum_list (map exp (log_softmax (logits ! b ! (i - 1)))) = 1)"
    if b: "b < ?B" for b
  proof (intro conjI allI impI)
    have rb: "res ! b = 0 # map (\<lambda>j. ?L ! b ! j ! (?T ! b ! j)) [0..<n - 1]"
      using b len_ids [OF b] by (simp add: res_def)
    show "length (res ! b) = n" using rb rows(3) by simp
    show "res ! b ! 0 = 0" using rb by simp
    fix i assume i: "1 \<le> i \<and> i < n"
    then obtain j where j: "i = Suc j" "j < n - 1" by (cases i) auto
    have "res ! b ! i = ?L ! b ! j ! (?T ! b ! j)"
      using rb j by simp
    also have "\<dots> = log_softmax (logits ! b ! j) ! (input_ids ! b ! Suc j)"
      using Lnth [OF b j(2)] b j(2) len_ids [OF b] by simp
    finally show "res ! b ! i = log_softmax (logits ! b ! (i - 1)) ! (input_ids ! b ! i)"
      using j by simp
    have "V = length (logits ! b ! (i - 1))" using len_v [of b j] b j by simp
    moreover have "0 < V" using tok [of b i] b i by simp
    ultimately have "logits ! b ! (i - 1) \<noteq> []" by auto
    then show "sum_list (map exp (log_softmax (logits ! b ! (i - 1)))) = 1"
      by (rule log_softmax_normalised)
  qed
  show ?thesis using sc len_res per by blast
qed

theorem score_positions_witness:
  "[[0, 2, 1]] \<noteq> ([] :: token list list)
   \<and> list_all (\<lambda>r. length r = 3) [[0, 2, 1 :: token]]
   \<and> rectangular [[1, 1, 1 :: nat]]
   \<and> lm_forward toy_lm () [[0, 2, 1]] [[1, 1, 1]] = [[[0, 0, 0], [0, 0, 0], [0, 0, 0]]]
   \<and> list_all (list_all (\<lambda>t. t < 3)) [[0, 2, 1 :: token]]
   \<and> TransformersLLM_score toy_lm [[0, 2, 1]] [[1, 1, 1]] () = Inr [[0, - ln 3, - ln 3]]"
proof -
  let ?L = "[[[0, 0, 0], [0, 0, 0], [0, 0, 0 :: real]]]"
  have a: "[[0, 2, 1]] \<noteq> ([] :: token list list)" by simp
  have b: "list_all (\<lambda>r. length r = 3) [[0, 2, 1 :: token]]" by simp
  have c: "(0 :: nat) < 3" by simp
  have d: "rectangular [[1, 1, 1 :: nat]]" by (simp add: rectangular_def)
  have e: "?L = lm_forward toy_lm () [[0, 2, 1]] [[1, 1, 1]]" by (simp add: toy_lm_def)
  have f: "length ?L = length [[0, 2, 1 :: token]]" by simp
  have g: "list_all (\<lambda>row. length row = 3 \<and> list_all (\<lambda>v. length v = 3) row) ?L" by simp
  have h: "list_all (list_all (\<lambda>t. t < 3)) [[0, 2, 1 :: token]]" by simp
  have ls: "log_softmax [0, 0, 0] = [- ln 3, - ln 3, - ln 3]"
    by (simp add: log_softmax_def)
  from score_positions [OF a b c d e f g h] obtain res where res:
    "TransformersLLM_score toy_lm [[0, 2, 1]] [[1, 1, 1]] () = Inr res"
    "length res = 1"
    "length (res ! 0) = 3" "res ! 0 ! 0 = 0"
    "res ! 0 ! 1 = log_softmax (?L ! 0 ! 0) ! 2"
    "res ! 0 ! 2 = log_softmax (?L ! 0 ! 1) ! 1"
    by force
  have "res ! 0 = [0, - ln 3, - ln 3]"
    using res(3-6) ls by (intro nth_equalityI) (auto simp add: less_Suc_eq numeral_3_eq_3 numeral_2_eq_2)
  then have "res = [[0, - ln 3, - ln 3]]"
    using res(2) by (intro nth_equalityI) auto
  then show ?thesis
    using res(1) a b d e h by simp
qed



text \<open>
  The count tells reuse from rebuilding: on the same three steps, the processor that
  calls the builder at every step ends with a count of 3, where the code's ends with 1.
\<close>

lemma rebuilding_processor_counts_every_step:
  "map_sum id proc_state
     (model_generate toy_lm [[0]] False [[1]] 0 3 [RebuildingLogitsProcessor [(1, 5)]]
        \<lparr>bias_tensors = None, builds = 0\<rparr>
        [TokenStreamerDisguisedAsStoppingCriterion (\<lambda>ob ids sc. Suc ob)] 0 ())
   = Inr \<lparr>bias_tensors = Some [0, 5, 0], builds = 3\<rparr>"
  by (simp add: model_generate_def toy_lm_def numeral_3_eq_3 RebuildingLogitsProcessor_def
      make_bias_tensor_call_def shape_last_def broadcast_add_def toy_bias_tensor toy_argmax
      Let_def TokenStreamerDisguisedAsStoppingCriterion_def)

text \<open>
  C2: the wrapper hands the sequences and the scores of a step to the streamer and
  answers "do not stop" every time. So a call of \<^verbatim>\<open>generate\<close> gives, whatever the streamer
  and whatever the temperature (for one state of the sampler's generator), the sequences
  and scores, error included, of the same call with no stopping criterion at all; any two
  streamers see the same tokens generated.
\<close>

theorem streamer_never_stops_generation:
  "TokenStreamerDisguisedAsStoppingCriterion streamer ob ids sc = (streamer ob ids sc, False)
   \<and> map_sum id fst (TransformersLLM_generate m input_ids attention_mask temperature max_new_tokens
                         bias streamer ob0 g0)
       = generate_without_streamer m input_ids attention_mask temperature max_new_tokens bias g0
   \<and> map_sum id fst (TransformersLLM_generate m input_ids attention_mask temperature max_new_tokens
                         bias streamer ob0 g0)
       = map_sum id fst (TransformersLLM_generate m input_ids attention_mask temperature max_new_tokens
                         bias streamer2 ob2 g0)"
proof -
  have key: "map_sum id fst (TransformersLLM_generate m input_ids attention_mask temperature
                 max_new_tokens bias s ob g0)
             = generate_without_streamer m input_ids attention_mask temperature max_new_tokens bias g0"
    for s :: "'x token_streamer" and ob :: 'x
  proof (cases "to_tensor input_ids")
    case (Inl e)
    then show ?thesis by (simp add: TransformersLLM_generate_def generate_without_streamer_def)
  next
    case ids: (Inr ids)
    show ?thesis
    proof (cases "to_tensor attention_mask")
      case (Inl e)
      then show ?thesis
        using ids by (simp add: TransformersLLM_generate_def generate_without_streamer_def)
    next
      case att: (Inr att)
      obtain p0 procs where lp: "logits_processors bias = (p0, procs)"
        by (cases "logits_processors bias")
      let ?st0 = "\<lparr>sequences = ids, step_scores = [], finished = map (\<lambda>s. False) ids,
                   proc_state = p0, observer = ob, generator = g0\<rparr>"
      have f0: "forget_observer ?st0 =
                  \<lparr>sequences = ids, step_scores = [], finished = map (\<lambda>s. False) ids,
                   proc_state = p0, observer = (), generator = g0\<rparr>"
        by (simp add: forget_observer_def)
      have d: "model_generate m ids (temperature > 0) att temperature max_new_tokens procs p0 [] () g0
               = map_sum id forget_observer (model_generate m ids (temperature > 0) att temperature
                          max_new_tokens procs p0 [TokenStreamerDisguisedAsStoppingCriterion s] ob g0)"
        unfolding model_generate_def decode_forget_observer f0 ..
      show ?thesis
      proof (cases "model_generate m ids (temperature > 0) att temperature max_new_tokens
                          procs p0 [TokenStreamerDisguisedAsStoppingCriterion s] ob g0")
        case (Inl e)
        then show ?thesis using ids att lp
          by (simp add: TransformersLLM_generate_def generate_without_streamer_def d)
      next
        case (Inr st)
        then show ?thesis using ids att lp
          by (simp add: TransformersLLM_generate_def generate_without_streamer_def d
              forget_observer_def)
      qed
    qed
  qed
  show ?thesis
    using key [of streamer ob0] key [of streamer2 ob2]
    by (simp add: TokenStreamerDisguisedAsStoppingCriterion_def)
qed



end
